theory Spec2Isabelle
  imports Main "HOL-Library.Word" "HOL-Library.Multiset"
begin

unbundle bit_operations_syntax

section \<open>Packet framing (pkt.go)\<close>

type_synonym byte = "8 word"

text \<open>
  Go errors are values carrying a message. \<open>errorString\<close> is what \<open>fmt.Errorf\<close> and
  \<open>errors.New\<close> build; \<open>jsonError\<close> stands for any error of the \<open>encoding/json\<close>
  library; \<open>runtimePanic\<close> is a run-time panic of the Go program.
\<close>

datatype error = errorString string | jsonError string | runtimePanic string

type_synonym Hashname = string
type_synonym UDPAddr = "string \<times> nat"

text \<open>
  \<open>pkt_hdr_t\<close>, field by field. A Go string is a \<open>string\<close> with \<open>''''\<close> its zero
  value; \<open>*int\<close> is an \<open>int option\<close> (\<open>None\<close> is the nil pointer); a slice that the
  code compares with nil is a \<open>list option\<close>; \<open>json.RawMessage\<close> is a byte slice of
  which the code only ever takes the length, so nil and the empty slice coincide.
\<close>

record pkt_hdr_t =
  Type :: string
  Line :: string
  Iv :: string
  Open :: string
  Sig :: string
  C :: string
  To :: string
  At :: int
  Family :: string
  Seq :: int
  Ack :: "int option"
  Miss :: "int list option"
  End :: bool
  Err :: string
  Seek :: string
  See :: "string list option"
  Peer :: string
  IP :: string
  Port :: int
  Custom :: "byte list"

text \<open>
  \<open>pkt_t\<close>. The body is a byte slice of which the code only takes the length and the
  contents: nil and the empty slice are both \<open>[]\<close>.
\<close>

record pkt_t =
  addr :: "UDPAddr option"
  hdr :: pkt_hdr_t
  body :: "byte list"
  peer :: Hashname

text \<open>The zero value of \<open>pkt_hdr_t\<close>: what \<open>pkt_hdr_t{}\<close> denotes in Go.\<close>

definition zero_hdr :: pkt_hdr_t where
  "zero_hdr = \<lparr> Type = [], Line = [], Iv = [], Open = [], Sig = [], C = [], To = [],
     At = 0, Family = [], Seq = 0, Ack = None, Miss = None, End = False, Err = [],
     Seek = [], See = None, Peer = [], IP = [], Port = 0, Custom = [] \<rparr>"

definition ZeroHashname :: Hashname where
  "ZeroHashname = []"

text \<open>\<open>func (p *pkt_hdr_t) JustAck() bool\<close>\<close>

definition hdr_JustAck :: "pkt_hdr_t \<Rightarrow> bool" where
  "hdr_JustAck p =
     (if Type p = [] \<and>
         Line p = [] \<and>
         Iv p = [] \<and>
         Open p = [] \<and>
         Sig p = [] \<and>
         To p = [] \<and>
         At p = 0 \<and>
         Family p = [] \<and>
         Seq p = 0 \<and>
         Ack p \<noteq> None \<and>
         End p = False \<and>
         Err p = [] \<and>
         Seek p = [] \<and>
         See p = None \<and>
         Peer p = [] \<and>
         IP p = [] \<and>
         Port p = 0 \<and>
         length (Custom p) = 0
      then True else False)"

text \<open>\<open>func (p *pkt_t) JustAck() bool\<close>\<close>

definition JustAck :: "pkt_t \<Rightarrow> bool" where
  "JustAck p = (length (body p) = 0 \<and> hdr_JustAck (hdr p))"

text \<open>
  \<open>binary.BigEndian.PutUint16(b, v)\<close> stores \<open>byte(v >> 8)\<close> and \<open>byte(v)\<close>;
  \<open>binary.BigEndian.Uint16(b)\<close> is \<open>uint16(b[1]) | uint16(b[0])<<8\<close>.
\<close>

definition PutUint16 :: "16 word \<Rightarrow> byte list" where
  "PutUint16 v = [ucast (drop_bit 8 v), ucast v]"

definition Uint16 :: "byte list \<Rightarrow> 16 word" where
  "Uint16 b = ucast (b ! 1) OR push_bit 8 (ucast (b ! 0))"

text \<open>
  \<open>format_pkt\<close>. The JSON encoder of the Go library is a parameter \<open>Encode\<close>: the
  bytes \<open>json.NewEncoder(buf).Encode(p.hdr)\<close> appends, or its error. \<open>l\<close> is a Go
  \<open>int\<close>, and \<open>uint16(l)\<close> keeps its low 16 bits.
\<close>

definition format_pkt :: "(pkt_hdr_t \<Rightarrow> error + byte list) \<Rightarrow> pkt_t \<Rightarrow> error + byte list" where
  "format_pkt Encode p =
     (let buf = [0, 0] in
      case Encode (hdr p) of
        Inl err \<Rightarrow> Inl err
      | Inr js \<Rightarrow>
          (let buf = buf @ js;
               l = int (length buf) - 2;
               buf = (if length (body p) > 0 then buf @ body p else buf);
               data = PutUint16 (word_of_int l) @ drop 2 buf
           in Inr data))"

text \<open>
  \<open>parse_pkt\<close>. The JSON decoder of the Go library is a parameter \<open>Decode\<close>: the header
  that \<open>json.NewDecoder(r).Decode(&pkt.hdr)\<close> leaves in a zero header, or its error.
\<close>

definition parse_pkt ::
  "(byte list \<Rightarrow> error + pkt_hdr_t) \<Rightarrow> byte list \<Rightarrow> UDPAddr option \<Rightarrow> error + pkt_t" where
  "parse_pkt Decode inp a =
     (if length inp < 4 then Inl (errorString ''pkt is too short'')
      else
        (let hdr_len = uint (Uint16 (take 2 inp));
             body_len = int (length inp) - (hdr_len + 2)
         in if body_len < 0 then Inl (errorString ''pkt is too short'')
            else
              (case Decode (take (nat hdr_len) (drop 2 inp)) of
                 Inl err \<Rightarrow> Inl err
               | Inr h \<Rightarrow>
                   if body_len = 0
                   then Inr \<lparr> addr = a, hdr = h, body = [], peer = ZeroHashname \<rparr>
                   else Inr \<lparr> addr = a, hdr = h,
                              body = take (nat body_len) (drop (nat (hdr_len + 2)) inp),
                              peer = ZeroHashname \<rparr>)))"

section \<open>Channels (controller_channel.go, switch.go)\<close>

text \<open>
  A channel holds its id, its peer and its type. Its send buffer, receive buffer and ack
  handler (\<open>channel_snd_buffer_t\<close>, \<open>channel_rcv_buffer_t\<close>, \<open>channel_ack_handler_t\<close>) are
  not part of the sources at hand, and neither is the line layer. The controller below
  therefore records every call it makes to them, in order, as a \<open>call\<close>; what such a call
  returns to the controller is a parameter (\<open>send_env\<close>, or the argument of \<open>receive\<close>).
  Modelled from the spec: \<open>ack.close()\<close> and \<open>rcv.close()\<close> stop the ack engine and wake
  the waiters of the receive buffer; they act on the channel's own buffers and leave the
  controller's registry alone.
\<close>

record channel_t =
  chan_id :: string
  chan_peer :: Hashname
  channel_type :: string

datatype call =
    snd_put string pkt_t
  | ack_add_ack_info string pkt_t
  | line_snd_pkt Hashname pkt_t
  | ack_close string
  | rcv_close string
  | rcv_put string pkt_t
  | ack_received_packet string
  | ack_handle_ack_info string pkt_t
  | go_run_user_handler string

text \<open>\<open>channel_controller\<close>: the registry \<open>channels\<close>, and the calls made so far.\<close>

record channel_controller =
  channels :: "string \<rightharpoonup> channel_t"
  calls :: "call list"

text \<open>
  What the absent callees hand back to \<open>send\<close>: \<open>snd.put\<close> fails or leaves the packet as
  it buffered it (sequence number assigned), \<open>ack.add_ack_info\<close> stamps the packet, and
  \<open>_snd_pkt\<close> of the line layer fails or not.
\<close>

record send_env =
  snd_put_result :: "pkt_t \<Rightarrow> error + pkt_t"
  add_ack_info_result :: "pkt_t \<Rightarrow> pkt_t"
  snd_pkt_result :: "Hashname \<Rightarrow> pkt_t \<Rightarrow> error option"

definition called :: "call \<Rightarrow> channel_controller \<Rightarrow> channel_controller" where
  "called c h = h\<lparr> calls := calls h @ [c] \<rparr>"

text \<open>\<open>add_channel\<close>: \<open>h.channels[c.id] = c\<close>; \<open>drop_channel\<close>: \<open>delete(h.channels, c.id)\<close>.\<close>

definition add_channel :: "channel_controller \<Rightarrow> channel_t \<Rightarrow> channel_controller" where
  "add_channel h c = h\<lparr> channels := (channels h)(chan_id c \<mapsto> c) \<rparr>"

definition drop_channel :: "channel_controller \<Rightarrow> channel_t \<Rightarrow> channel_controller" where
  "drop_channel h c = h\<lparr> channels := (channels h)(chan_id c := None) \<rparr>"

definition make_channel :: "Hashname \<Rightarrow> channel_t" where
  "make_channel p = \<lparr> chan_id = [], chan_peer = p, channel_type = [] \<rparr>"

text \<open>\<open>func (c *channel_t) send(pkt *pkt_t) error\<close>\<close>

definition send ::
  "send_env \<Rightarrow> channel_controller \<Rightarrow> channel_t \<Rightarrow> pkt_t \<Rightarrow> error option \<times> channel_controller" where
  "send env h c pkt =
     (let pkt = pkt\<lparr> hdr := (hdr pkt)\<lparr> C := chan_id c \<rparr> \<rparr>;
          h = called (snd_put (chan_id c) pkt) h
      in case snd_put_result env pkt of
           Inl err \<Rightarrow> (Some err, h)
         | Inr pkt \<Rightarrow>
             (let h = called (ack_add_ack_info (chan_id c) pkt) h;
                  pkt = add_ack_info_result env pkt;
                  h = called (line_snd_pkt (chan_peer c) pkt) h
              in case snd_pkt_result env (chan_peer c) pkt of
                   Some err \<Rightarrow> (Some err, h)
                 | None \<Rightarrow> (None, h)))"

text \<open>\<open>func (c *channel_t) close_with_error(err_message string) error\<close>\<close>

definition close_with_error ::
  "send_env \<Rightarrow> channel_controller \<Rightarrow> channel_t \<Rightarrow> string \<Rightarrow> error option \<times> channel_controller" where
  "close_with_error env h c err_message =
     (let (err, h) = send env h c
                       \<lparr> addr = None, hdr = zero_hdr\<lparr> End := True, Err := err_message \<rparr>,
                         body = [], peer = ZeroHashname \<rparr>;
          h = called (ack_close (chan_id c)) h;
          h = called (rcv_close (chan_id c)) h
      in (err, h))"

definition close ::
  "send_env \<Rightarrow> channel_controller \<Rightarrow> channel_t \<Rightarrow> error option \<times> channel_controller" where
  "close env h c = close_with_error env h c []"

text \<open>
  \<open>func (c *channel_t) receive() (*pkt_t, error)\<close>. The argument is what \<open>c.rcv.get()\<close>
  returned; the result is Go's pair of a packet pointer and an error.
\<close>

definition receive :: "error + pkt_t \<Rightarrow> pkt_t option \<times> error option" where
  "receive got =
     (case got of
        Inl err \<Rightarrow> (None, Some err)
      | Inr pkt \<Rightarrow>
          (let err = (if Err (hdr pkt) \<noteq> [] then Some (errorString (Err (hdr pkt))) else None)
           in (Some pkt, err)))"

text \<open>\<open>func (h *channel_controller) rcv_new_channel_pkt(pkt *pkt_t)\<close>\<close>

definition rcv_new_channel_pkt :: "channel_controller \<Rightarrow> pkt_t \<Rightarrow> channel_controller" where
  "rcv_new_channel_pkt h pkt =
     (let channel = make_channel (peer pkt);
          channel = channel\<lparr> chan_id := C (hdr pkt) \<rparr>;
          channel = channel\<lparr> channel_type := Type (hdr pkt) \<rparr>;
          h = add_channel h channel;
          h = called (go_run_user_handler (chan_id channel)) h;
          h = called (rcv_put (chan_id channel) pkt) h;
          h = called (ack_received_packet (chan_id channel)) h
      in h)"

text \<open>\<open>func (h *channel_controller) rcv_channel_pkt(pkt *pkt_t)\<close>\<close>

definition rcv_channel_pkt :: "channel_controller \<Rightarrow> pkt_t \<Rightarrow> channel_controller" where
  "rcv_channel_pkt h pkt =
     (if C (hdr pkt) = [] then h
      else
        (case channels h (C (hdr pkt)) of
           None \<Rightarrow> (if Type (hdr pkt) \<noteq> [] then rcv_new_channel_pkt h pkt else h)
         | Some channel \<Rightarrow>
             (let h = (if \<not> JustAck pkt
                       then called (ack_received_packet (chan_id channel))
                              (called (rcv_put (chan_id channel) pkt) h)
                       else h)
              in called (ack_handle_ack_info (chan_id channel) pkt) h)))"

text \<open>
  \<open>func (c *Channel) Receive(hdr interface{}) (body []byte, err error)\<close> of switch.go.
  \<open>Unmarshal\<close> is the result of \<open>json.Unmarshal\<close> on the custom header. A nil body is
  \<open>[]\<close>.
\<close>

definition Channel_Receive ::
  "(byte list \<Rightarrow> error option) \<Rightarrow> error + pkt_t \<Rightarrow> byte list \<times> error option" where
  "Channel_Receive Unmarshal got =
     (case receive got of
        (_, Some err) \<Rightarrow> ([], Some err)
      | (None, None) \<Rightarrow> ([], Some (runtimePanic ''nil pointer dereference''))
      | (Some pkt, None) \<Rightarrow>
          if length (Custom (hdr pkt)) > 0
          then (case Unmarshal (Custom (hdr pkt)) of
                  Some err \<Rightarrow> ([], Some err)
                | None \<Rightarrow> (body pkt, None))
          else (body pkt, None))"

section \<open>Routing table (modules/dht/kademlia/table.go)\<close>

text \<open>
  Modelled from the spec: the hashname and key types and the functions \<open>distance\<close>,
  \<open>keyDistance\<close>, \<open>bucketFromDistance\<close> and \<open>distanceLess\<close>, which table.go calls and
  which are declared in files of the package that are not at hand. A hashname, a key and
  a distance are 32 bytes, read here as one 256-bit word with the first byte the most
  significant, so that the lexicographic order of the byte vectors is the order of the
  words. The distance is the XOR; the bucket of a distance is \<open>-1\<close> when it is zero and
  255 minus the index of its most significant set bit otherwise. A mesh tag is an opaque
  handle; \<open>released\<close> lists the tags on which \<open>Release()\<close> was called, in order.
\<close>

type_synonym H = "256 word"
type_synonym keyDist = "256 word"
type_synonym Tag = nat

definition KeyLen :: nat where "KeyLen = 32"
definition numBuckets :: nat where "numBuckets = KeyLen * 8"
definition maxPeers :: nat where "maxPeers = 32"
definition maxCandidates :: nat where "maxCandidates = 128"
definition maxRoutersPerCandidate :: nat where "maxRoutersPerCandidate = 5"

record peerInfo =
  pi_bucket :: int
  pi_distance :: keyDist
  pi_hashname :: H

record activePeer = peerInfo +
  tag :: Tag

record candidatePeer = peerInfo +
  routers :: "H list"

record bucket =
  bucket_id :: int
  peers :: "activePeer list"
  candidates :: "candidatePeer list"
  pending :: "candidatePeer list"

text \<open>
  \<open>table\<close>: the array of \<open>numBuckets\<close> buckets is a function read at the indices below
  \<open>numBuckets\<close> only. The lock is left out: every operation holds it from start to end.
\<close>

record table =
  localHashname :: H
  buckets :: "nat \<Rightarrow> bucket"
  released :: "Tag list"

definition distance :: "H \<Rightarrow> H \<Rightarrow> keyDist" where
  "distance a b = a XOR b"


fun highest_bit :: "nat \<Rightarrow> nat" where
  "highest_bit n = (if n < 2 then 0 else Suc (highest_bit (n div 2)))"

declare highest_bit.simps [simp del]

definition bucketFromDistance :: "keyDist \<Rightarrow> int" where
  "bucketFromDistance d = (if d = 0 then - 1 else 255 - int (highest_bit (unat d)))"


text \<open>\<open>func (t *table) init()\<close>, for a table whose local hashname is given.\<close>

definition init :: "H \<Rightarrow> table" where
  "init local = \<lparr> localHashname = local,
     buckets = (\<lambda>i. \<lparr> bucket_id = int i, peers = [], candidates = [], pending = [] \<rparr>),
     released = [] \<rparr>"

text \<open>
  The loop \<open>for e := l.Front(); e != nil; e = e.Next()\<close> that removes the first element
  with the hashname looked for, and stops.
\<close>

fun remove_first :: "('a \<Rightarrow> bool) \<Rightarrow> 'a list \<Rightarrow> 'a list" where
  "remove_first P [] = []"
| "remove_first P (x # xs) = (if P x then xs else x # remove_first P xs)"

definition set_bucket :: "table \<Rightarrow> nat \<Rightarrow> bucket \<Rightarrow> table" where
  "set_bucket t i b = t\<lparr> buckets := (buckets t)(i := b) \<rparr>"

definition Release :: "Tag \<Rightarrow> table \<Rightarrow> table" where
  "Release tg t = t\<lparr> released := released t @ [tg] \<rparr>"

text \<open>\<open>func (t *table) nextCandidate() *candidatePeer\<close>: the loop over the buckets.\<close>

fun nextCandidate_from :: "table \<Rightarrow> nat list \<Rightarrow> candidatePeer option \<times> table" where
  "nextCandidate_from t [] = (None, t)"
| "nextCandidate_from t (i # is) =
     (let b = buckets t i in
      if length (peers b) + length (pending b) = maxPeers then nextCandidate_from t is
      else (case candidates b of
              [] \<Rightarrow> nextCandidate_from t is
            | c # cs \<Rightarrow>
                (Some c, set_bucket t i (b\<lparr> candidates := cs, pending := pending b @ [c] \<rparr>))))"

definition nextCandidate :: "table \<Rightarrow> candidatePeer option \<times> table" where
  "nextCandidate t = nextCandidate_from t [0..<numBuckets]"

text \<open>
  The loop of \<open>activatePeer\<close> that looks for an active peer with the hashname: the tag
  it held (released by the caller) and the list with the new tag in its place.
\<close>

fun update_tag :: "H \<Rightarrow> Tag \<Rightarrow> activePeer list \<Rightarrow> (Tag \<times> activePeer list) option" where
  "update_tag hn tg [] = None"
| "update_tag hn tg (i # is) =
     (if pi_hashname i = hn then Some (tag i, i\<lparr> tag := tg \<rparr> # is)
      else (case update_tag hn tg is of
              None \<Rightarrow> None
            | Some (old, is') \<Rightarrow> Some (old, i # is')))"

text \<open>\<open>func (t *table) activatePeer(hn hashname.H, tag mesh.Tag)\<close>\<close>

definition activatePeer :: "table \<Rightarrow> H \<Rightarrow> Tag \<Rightarrow> table" where
  "activatePeer t hn tg =
     (let dist = distance (localHashname t) hn;
          bucketIdx = bucketFromDistance dist
      in if bucketIdx < 0 then Release tg t
         else
           (let b = buckets t (nat bucketIdx);
                b = b\<lparr> pending := remove_first (\<lambda>v. pi_hashname v = hn) (pending b) \<rparr>
            in case update_tag hn tg (peers b) of
                 Some (old, ps) \<Rightarrow> Release old (set_bucket t (nat bucketIdx) (b\<lparr> peers := ps \<rparr>))
               | None \<Rightarrow>
                   if length (peers b) \<ge> maxPeers
                   then Release tg (set_bucket t (nat bucketIdx) b)
                   else set_bucket t (nat bucketIdx)
                          (b\<lparr> peers := peers b @
                             [\<lparr> pi_bucket = bucketIdx, pi_distance = dist, pi_hashname = hn,
                                tag = tg \<rparr>] \<rparr>)))"

text \<open>\<open>func (t *table) deactivatePeer(hn hashname.H)\<close>\<close>

definition deactivatePeer :: "table \<Rightarrow> H \<Rightarrow> table" where
  "deactivatePeer t hn =
     (let dist = distance (localHashname t) hn;
          bucketIdx = bucketFromDistance dist
      in if bucketIdx < 0 then t
         else
           (let b = buckets t (nat bucketIdx);
                t = (case find (\<lambda>v. pi_hashname v = hn) (peers b) of
                       Some v \<Rightarrow> Release (tag v) t
                     | None \<Rightarrow> t);
                b = b\<lparr> peers := remove_first (\<lambda>v. pi_hashname v = hn) (peers b) \<rparr>;
                b = b\<lparr> candidates := remove_first (\<lambda>v. pi_hashname v = hn) (candidates b) \<rparr>;
                b = b\<lparr> pending := remove_first (\<lambda>v. pi_hashname v = hn) (pending b) \<rparr>
            in set_bucket t (nat bucketIdx) b))"

text \<open>
  The router loop of \<open>addCandidate\<close>: \<open>range c.routers\<close> walks the slice as it was when
  the loop started, and each \<open>r\<close> that differs from \<open>router\<close> is appended to \<open>c.routers\<close>;
  then the list is cut to \<open>maxRoutersPerCandidate\<close>.
\<close>

definition add_router :: "H \<Rightarrow> H list \<Rightarrow> H list" where
  "add_router router rs =
     (let rs' = foldl (\<lambda>acc r. if r \<noteq> router then acc @ [r] else acc) rs rs
      in if length rs' > maxRoutersPerCandidate then take maxRoutersPerCandidate rs' else rs')"

fun update_candidate :: "H \<Rightarrow> H \<Rightarrow> candidatePeer list \<Rightarrow> candidatePeer list option" where
  "update_candidate hn router [] = None"
| "update_candidate hn router (c # cs) =
     (if pi_hashname c = hn then Some (c\<lparr> routers := add_router router (routers c) \<rparr> # cs)
      else (case update_candidate hn router cs of
              None \<Rightarrow> None
            | Some cs' \<Rightarrow> Some (c # cs')))"

text \<open>\<open>func (t *table) addCandidate(hn hashname.H, router hashname.H)\<close>\<close>

definition addCandidate :: "table \<Rightarrow> H \<Rightarrow> H \<Rightarrow> table" where
  "addCandidate t hn router =
     (let dist = distance (localHashname t) hn;
          bucketIdx = bucketFromDistance dist
      in if bucketIdx < 0 then t
         else
           (let b = buckets t (nat bucketIdx) in
            if list_ex (\<lambda>c. pi_hashname c = hn) (peers b) then t
            else if list_ex (\<lambda>v. pi_hashname v = hn) (pending b) then t
            else (case update_candidate hn router (candidates b) of
                    Some cs \<Rightarrow> set_bucket t (nat bucketIdx) (b\<lparr> candidates := cs \<rparr>)
                  | None \<Rightarrow>
                      if length (candidates b) < maxCandidates
                      then set_bucket t (nat bucketIdx)
                             (b\<lparr> candidates := candidates b @
                                [\<lparr> pi_bucket = bucketIdx, pi_distance = dist, pi_hashname = hn,
                                   routers = [router] \<rparr>] \<rparr>)
                      else t)))"






section \<open>Notions of the specification\<close>

text \<open>
  The header as it comes back from JSON: \<open>omitempty\<close> leaves out an empty slice as it does
  a nil one, so that both decode to nil. Every other field is left out exactly when it
  holds its zero value.
\<close>

definition omitempty :: "pkt_hdr_t \<Rightarrow> pkt_hdr_t" where
  "omitempty h = h\<lparr> Miss := (if Miss h = Some [] then None else Miss h),
                    See := (if See h = Some [] then None else See h) \<rparr>"

text \<open>
  A well-formed packet, for a JSON library \<open>Encode\<close>, \<open>Decode\<close>: its header encodes, to a
  text of at least the two bytes of an object and of at most the 65535 bytes the length
  prefix can announce, and the library decodes that text to the header again (up to
  \<open>omitempty\<close>).
\<close>

definition well_formed ::
  "(pkt_hdr_t \<Rightarrow> error + byte list) \<Rightarrow> (byte list \<Rightarrow> error + pkt_hdr_t) \<Rightarrow> pkt_t \<Rightarrow> bool" where
  "well_formed Encode Decode p =
     (case Encode (hdr p) of
        Inl err \<Rightarrow> False
      | Inr js \<Rightarrow> 2 \<le> length js \<and> length js \<le> 65535 \<and> Decode js = Inr (omitempty (hdr p)))"




text \<open>
  The router merge as the specification words it: the router is appended when the list
  does not hold it yet, and the list is cut to its first \<open>maxRoutersPerCandidate\<close>
  entries.
\<close>

definition merge_router_spec :: "H \<Rightarrow> H list \<Rightarrow> H list" where
  "merge_router_spec router rs =
     take maxRoutersPerCandidate (if router \<in> set rs then rs else rs @ [router])"

section \<open>Concrete inputs\<close>

text \<open>
  What \<open>encoding/json\<close> writes for a header whose only non-zero field is a \<open>Type\<close> of
  lower-case letters: \<open>{}\<close> or \<open>{"type":"..."}\<close>, and a newline. \<open>Encode_type\<close> reports
  an error on every other header; no theorem uses it there. \<open>Decode_empty\<close> reads the
  text \<open>{}\<close>, with or without the newline, to the zero header.
\<close>

definition is_lower :: "char \<Rightarrow> bool" where
  "is_lower c = (97 \<le> (of_char c :: nat) \<and> (of_char c :: nat) \<le> 122)"

definition Encode_type :: "pkt_hdr_t \<Rightarrow> error + byte list" where
  "Encode_type h =
     (if h = zero_hdr\<lparr> Type := Type h \<rparr> \<and> list_all is_lower (Type h)
      then (if Type h = [] then Inr [0x7B, 0x7D, 0x0A]
            else Inr ([0x7B, 0x22, 0x74, 0x79, 0x70, 0x65, 0x22, 0x3A, 0x22] @
                      map of_char (Type h) @ [0x22, 0x7D, 0x0A]))
      else Inl (jsonError ''header outside the modelled fragment''))"

definition Decode_empty :: "byte list \<Rightarrow> error + pkt_hdr_t" where
  "Decode_empty bs =
     (if bs = [0x7B, 0x7D] \<or> bs = [0x7B, 0x7D, 0x0A] then Inr zero_hdr
      else Inl (jsonError ''text outside the modelled fragment''))"

text \<open>A packet whose type is 65526 letters: its header is 65538 bytes of JSON.\<close>

definition long_pkt :: pkt_t where
  "long_pkt = \<lparr> addr = None, hdr = zero_hdr\<lparr> Type := replicate 65526 (CHR ''a'') \<rparr>,
                 body = [], peer = ZeroHashname \<rparr>"

definition long_json :: "byte list" where
  "long_json = [0x7B, 0x22, 0x74, 0x79, 0x70, 0x65, 0x22, 0x3A, 0x22] @
               replicate 65526 0x61 @ [0x22, 0x7D, 0x0A]"

definition small_pkt :: pkt_t where
  "small_pkt = \<lparr> addr = None, hdr = zero_hdr, body = [1, 2, 3], peer = ZeroHashname \<rparr>"

text \<open>A channel \<open>c1\<close> in the registry, callees that succeed, and three packets for it.\<close>

definition chan_one :: channel_t where
  "chan_one = \<lparr> chan_id = ''c1'', chan_peer = ''peer'', channel_type = ''chat'' \<rparr>"

definition h_one :: channel_controller where
  "h_one = \<lparr> channels = [''c1'' \<mapsto> chan_one], calls = [] \<rparr>"

definition env_ok :: send_env where
  "env_ok = \<lparr> snd_put_result = (\<lambda>p. Inr (p\<lparr> hdr := (hdr p)\<lparr> Seq := 1 \<rparr> \<rparr>)),
              add_ack_info_result = (\<lambda>p. p),
              snd_pkt_result = (\<lambda>to p. None) \<rparr>"

definition late_pkt :: pkt_t where
  "late_pkt = \<lparr> addr = None, hdr = zero_hdr\<lparr> C := ''c1'', Seq := 2 \<rparr>, body = [1],
                 peer = ''peer'' \<rparr>"

definition ack_pkt :: pkt_t where
  "ack_pkt = \<lparr> addr = None, hdr = zero_hdr\<lparr> C := ''c1'', Ack := Some 3, Miss := Some [2] \<rparr>,
                body = [], peer = ''peer'' \<rparr>"

definition boom_pkt :: pkt_t where
  "boom_pkt = \<lparr> addr = None,
                 hdr = zero_hdr\<lparr> C := ''c1'', Seq := 1, End := True, Err := ''boom'' \<rparr>,
                 body = [1, 2, 3], peer = ''peer'' \<rparr>"

text \<open>
  Tables of the node with hashname 0. In \<open>t_cand\<close> the node learns of hashname 1 from
  router 2 and then links it; in \<open>t_three\<close> it links the hashnames 1, 2 and 3.
\<close>

definition t_cand :: table where
  "t_cand = activatePeer (addCandidate (init 0) 1 2) 1 7"

definition t_routers :: table where
  "t_routers = addCandidate (addCandidate (init 0) 1 2) 1 3"


section \<open>Properties of the packet framing\<close>

lemma Uint16_PutUint16: "Uint16 (PutUint16 v) = v"
  unfolding Uint16_def PutUint16_def
  by (rule bit_word_eqI) (auto simp add: bit_simps)

lemma uint_Uint16_PutUint16: "uint (Uint16 (PutUint16 (word_of_nat n))) = int n mod 65536"
proof -
  have "uint (word_of_nat n :: 16 word) = int n mod 65536"
    using uint_word_of_int [of "int n", where ?'a = 16] by simp
  then show ?thesis
    by (simp only: Uint16_PutUint16)
qed

lemma format_pkt_Inr:
  "Encode (hdr p) = Inr js \<Longrightarrow>
   format_pkt Encode p = Inr (PutUint16 (word_of_nat (length js)) @ js @ body p)"
  by (simp add: format_pkt_def Let_def)

lemma take2_PutUint16: "take 2 (PutUint16 v @ xs) = PutUint16 v"
  by (simp add: PutUint16_def)

lemma drop2_PutUint16: "drop 2 (PutUint16 v @ xs) = xs"
  by (simp add: PutUint16_def)

lemma length_PutUint16: "length (PutUint16 v) = 2"
  by (simp add: PutUint16_def)

lemma parse_pkt_frame:
  assumes "2 \<le> length js"
  shows "parse_pkt Decode (PutUint16 (word_of_nat (length js)) @ js @ bd) a =
     (case Decode (take (length js mod 65536) js) of
        Inl err \<Rightarrow> Inl err
      | Inr h \<Rightarrow> Inr \<lparr> addr = a, hdr = h, body = drop (length js mod 65536) js @ bd,
                       peer = ZeroHashname \<rparr>)"
proof -
  define m where "m = length js mod 65536"
  define frame where "frame = PutUint16 (word_of_nat (length js)) @ js @ bd"
  have len: "length frame = 2 + length js + length bd"
    by (simp add: frame_def length_PutUint16)
  have hl: "uint (Uint16 (take 2 frame)) = int m"
    unfolding frame_def m_def
    by (simp only: take2_PutUint16 uint_Uint16_PutUint16) (simp add: zmod_int)
  have m: "m \<le> length js"
    by (simp add: m_def)
  have long: "\<not> length frame < 4"
    using len assms by simp
  have bl: "int (length frame) - (int m + 2) = int (length js - m + length bd)"
    using m len by linarith
  have hd: "take (nat (int m)) (drop 2 frame) = take m js"
    using m by (simp add: frame_def PutUint16_def)
  have bd: "take (nat (int (length js - m + length bd))) (drop (nat (int m + 2)) frame)
              = drop m js @ bd"
  proof -
    have "nat (int m + 2) = m + 2" by linarith
    moreover have "drop (m + 2) frame = drop m js @ bd"
      using m by (simp add: frame_def PutUint16_def)
    ultimately show ?thesis by simp
  qed
  have z: "drop m js @ bd = []" if "int (length js - m + length bd) = 0"
  proof -
    from that have "length js - m + length bd = 0"
      by (simp only: of_nat_eq_0_iff)
    then show ?thesis by simp
  qed
  have nn: "\<not> int (length js - m + length bd) < 0"
    by simp
  have "parse_pkt Decode frame a =
     (case Decode (take m js) of
        Inl err \<Rightarrow> Inl err
      | Inr h \<Rightarrow> Inr \<lparr> addr = a, hdr = h, body = drop m js @ bd, peer = ZeroHashname \<rparr>)"
    unfolding parse_pkt_def Let_def hl bl hd bd
    using long nn z by (auto split: sum.splits)
  then show ?thesis
    by (simp only: frame_def m_def)
qed

text \<open>
  Claim C7. \<open>parse_pkt\<close> fails with the error \<open>pkt is too short\<close> on every input of less
  than 4 bytes and on every input whose declared header length plus 2 exceeds the input
  length; the four bytes \<open>00 02 { }\<close> parse to the zero header and an empty body, given
  that the JSON library decodes \<open>{}\<close> to the zero header.
\<close>
theorem parse_pkt_malformed_frame:
  "(length inp < 4 \<longrightarrow> parse_pkt Decode inp a = Inl (errorString ''pkt is too short'')) \<and>
   (int (length inp) < uint (Uint16 (take 2 inp)) + 2 \<longrightarrow>
      parse_pkt Decode inp a = Inl (errorString ''pkt is too short'')) \<and>
   (Decode [0x7B, 0x7D] = Inr zero_hdr \<longrightarrow>
      parse_pkt Decode [0x00, 0x02, 0x7B, 0x7D] a =
        Inr \<lparr> addr = a, hdr = zero_hdr, body = [], peer = ZeroHashname \<rparr>)"
  by (simp add: parse_pkt_def Let_def Uint16_def)

text \<open>
  Claim C6. For every well-formed packet \<open>p\<close>, \<open>format_pkt\<close> succeeds and \<open>parse_pkt\<close>
  of the frame succeeds and returns \<open>p\<close>'s header, up to the optional fields JSON leaves
  out, and \<open>p\<close>'s body; an absent body and a body of length zero are the same \<open>[]\<close>.
  The address is the one given to \<open>parse_pkt\<close> and the peer is not set.
\<close>
theorem codec_roundtrip:
  assumes "well_formed Encode Decode p"
  shows "\<exists>frame. format_pkt Encode p = Inr frame \<and>
           parse_pkt Decode frame a =
             Inr \<lparr> addr = a, hdr = omitempty (hdr p), body = body p, peer = ZeroHashname \<rparr>"
proof -
  from assms obtain js where
    js: "Encode (hdr p) = Inr js" and l2: "2 \<le> length js" and l16: "length js \<le> 65535"
    and dec: "Decode js = Inr (omitempty (hdr p))"
    by (auto simp add: well_formed_def split: sum.splits)
  have m: "length js mod 65536 = length js"
    using l16 by simp
  have "parse_pkt Decode (PutUint16 (word_of_nat (length js)) @ js @ body p) a =
          Inr \<lparr> addr = a, hdr = omitempty (hdr p), body = body p, peer = ZeroHashname \<rparr>"
    by (simp only: parse_pkt_frame [OF l2] m) (simp add: dec)
  with format_pkt_Inr [of Encode p js, OF js] show ?thesis
    by simp
qed

text \<open>
  Claim C10. When the JSON text of the header is longer than 65535 bytes, \<open>format_pkt\<close>
  still succeeds; the prefix holds the length modulo 65536, which is not the length; and
  \<open>parse_pkt\<close> of the frame, whatever the JSON decoder, decodes a proper prefix of the text
  and returns a body that is not the packet's.
\<close>
theorem format_pkt_header_overflow:
  assumes "Encode (hdr p) = Inr js" and "65535 < length js"
  shows "\<exists>frame. format_pkt Encode p = Inr frame \<and>
           uint (Uint16 (take 2 frame)) = int (length js) mod 65536 \<and>
           uint (Uint16 (take 2 frame)) \<noteq> int (length js) \<and>
           (\<forall>Decode a q. parse_pkt Decode frame a = Inr q \<longrightarrow>
               Decode (take (length js mod 65536) js) = Inr (hdr q) \<and>
               body q = drop (length js mod 65536) js @ body p \<and>
               body q \<noteq> body p)"
proof -
  let ?frame = "PutUint16 (word_of_nat (length js)) @ js @ body p"
  have l2: "2 \<le> length js" using assms(2) by simp
  have lt: "length js mod 65536 < length js"
    using assms(2) by (simp add: less_le_trans [OF mod_less_divisor])
  have f: "format_pkt Encode p = Inr ?frame"
    using assms(1) by (rule format_pkt_Inr)
  have u: "uint (Uint16 (take 2 ?frame)) = int (length js) mod 65536"
    by (simp only: take2_PutUint16 uint_Uint16_PutUint16)
  have "int (length js) mod 65536 = int (length js mod 65536)"
    by (simp add: zmod_int)
  with lt have ne: "int (length js) mod 65536 \<noteq> int (length js)"
    by linarith
  have nb: "drop (length js mod 65536) js @ body p \<noteq> body p"
    using lt by (metis append_self_conv2 drop_eq_Nil not_le)
  have "\<forall>Decode a q. parse_pkt Decode ?frame a = Inr q \<longrightarrow>
               Decode (take (length js mod 65536) js) = Inr (hdr q) \<and>
               body q = drop (length js mod 65536) js @ body p \<and>
               body q \<noteq> body p"
    using nb by (auto simp add: parse_pkt_frame [OF l2] split: sum.splits)
  with f u ne show ?thesis by auto
qed

lemma Encode_long: "Encode_type (hdr long_pkt) = Inr long_json"
  by (simp add: Encode_type_def long_pkt_def long_json_def zero_hdr_def is_lower_def
      list_all_iff)

lemma length_long_json: "length long_json = 65538"
  by (simp add: long_json_def)

text \<open>
  Claim C9, at the failing input. The header of \<open>long_pkt\<close>, a type of 65526 letters,
  is 65538 bytes of JSON. \<open>format_pkt\<close> succeeds and lays out two bytes, the JSON text
  and the body, but the two bytes are \<open>00 02\<close>: they announce a header of 2 bytes, not
  of 65538.
\<close>
theorem format_pkt_long_header_prefix:
  "Encode_type (hdr long_pkt) = Inr long_json \<and>
   format_pkt Encode_type long_pkt = Inr (0 # 2 # long_json @ body long_pkt) \<and>
   uint (Uint16 [0, 2]) = 2 \<and> length long_json = 65538"
  by (simp add: format_pkt_Inr [of Encode_type long_pkt long_json, OF Encode_long]
      Encode_long length_long_json PutUint16_def Uint16_def)

theorem parse_pkt_malformed_frame_witness:
  "length [0, 5, 0x7B :: byte] < 4 \<and>
   int (length [0, 5, 0x7B :: byte]) < uint (Uint16 (take 2 [0, 5, 0x7B])) + 2 \<and>
   Decode_empty [0x7B, 0x7D] = Inr zero_hdr \<and>
   parse_pkt Decode_empty [0, 5, 0x7B] None = Inl (errorString ''pkt is too short'') \<and>
   parse_pkt Decode_empty [0x00, 0x02, 0x7B, 0x7D] None =
     Inr \<lparr> addr = None, hdr = zero_hdr, body = [], peer = ZeroHashname \<rparr>"
  using parse_pkt_malformed_frame [of "[0, 5, 0x7B]" Decode_empty None]
  by (simp add: Decode_empty_def Uint16_def)

theorem codec_roundtrip_witness:
  "well_formed Encode_type Decode_empty small_pkt \<and>
   (\<exists>frame. format_pkt Encode_type small_pkt = Inr frame \<and>
      parse_pkt Decode_empty frame None =
        Inr \<lparr> addr = None, hdr = zero_hdr, body = [1, 2, 3], peer = ZeroHashname \<rparr>)"
proof -
  have w: "well_formed Encode_type Decode_empty small_pkt"
    by (simp add: well_formed_def Encode_type_def Decode_empty_def small_pkt_def zero_hdr_def
        omitempty_def)
  have o: "omitempty (hdr small_pkt) = zero_hdr"
    by (simp add: small_pkt_def omitempty_def zero_hdr_def)
  show ?thesis
    using w codec_roundtrip [OF w, of None] by (simp add: o) (simp add: small_pkt_def)
qed

theorem format_pkt_header_overflow_witness:
  "Encode_type (hdr long_pkt) = Inr long_json \<and> 65535 < length long_json \<and>
   (\<exists>frame. format_pkt Encode_type long_pkt = Inr frame \<and>
      uint (Uint16 (take 2 frame)) = 2 \<and>
      (\<forall>q. parse_pkt Decode_empty frame None = Inr q \<longrightarrow> body q \<noteq> body long_pkt))"
proof -
  have l: "65535 < length long_json"
    by (simp add: length_long_json)
  from format_pkt_header_overflow [of Encode_type long_pkt long_json, OF Encode_long l]
  obtain frame where
    f: "format_pkt Encode_type long_pkt = Inr frame"
    and u: "uint (Uint16 (take 2 frame)) = int (length long_json) mod 65536"
    and p: "\<forall>Decode a q. parse_pkt Decode frame a = Inr q \<longrightarrow> body q \<noteq> body long_pkt"
    by blast
  from p have "\<forall>q. parse_pkt Decode_empty frame None = Inr q \<longrightarrow> body q \<noteq> body long_pkt"
    by blast
  with Encode_long l f u show ?thesis
    by (auto simp add: length_long_json)
qed

section \<open>Properties of the channel controller\<close>

text \<open>
  Claim C4, at the failing input. The receive buffer delivers \<open>boom_pkt\<close>, whose header
  has \<open>err = boom\<close> and whose body is \<open>01 02 03\<close>. \<open>channel_t.receive\<close> returns the
  packet with the error; \<open>Channel.Receive\<close> returns the error with a nil body.
\<close>
theorem Channel_Receive_drops_packet:
  "receive (Inr boom_pkt) = (Some boom_pkt, Some (errorString ''boom'')) \<and>
   Channel_Receive Unmarshal (Inr boom_pkt) = ([], Some (errorString ''boom'')) \<and>
   body boom_pkt = [1, 2, 3]"
  by (simp add: receive_def Channel_Receive_def boom_pkt_def Let_def)

lemma close_with_error_channels:
  "channels (snd (close_with_error env h c msg)) = channels h"
  by (simp add: close_with_error_def send_def called_def Let_def split: sum.splits option.splits)

text \<open>
  Claim C5, at the failing input. \<open>close_with_error\<close> leaves the registry as it was:
  after channel \<open>c1\<close> is closed it is still registered, and a later packet for \<open>c1\<close> is
  put into its receive buffer and handed to its ack engine.
\<close>
theorem close_with_error_keeps_registry:
  "channels (snd (close_with_error env h c msg)) = channels h \<and>
   channels (snd (close env_ok h_one chan_one)) ''c1'' = Some chan_one \<and>
   calls (rcv_channel_pkt (snd (close env_ok h_one chan_one)) late_pkt) =
     calls (snd (close env_ok h_one chan_one)) @
       [rcv_put ''c1'' late_pkt, ack_received_packet ''c1'', ack_handle_ack_info ''c1'' late_pkt]"
proof -
  have c: "channels (snd (close env_ok h_one chan_one)) = channels h_one"
    by (simp add: close_def close_with_error_channels)
  have j: "\<not> JustAck late_pkt"
    by (simp add: JustAck_def late_pkt_def)
  have k: "C (hdr late_pkt) = ''c1''"
    by (simp add: late_pkt_def)
  have ch: "channels (snd (close env_ok h_one chan_one)) ''c1'' = Some chan_one"
    by (simp only: c) (simp add: h_one_def)
  have ci: "chan_id chan_one = ''c1''"
    by (simp add: chan_one_def)
  have "calls (rcv_channel_pkt (snd (close env_ok h_one chan_one)) late_pkt) =
     calls (snd (close env_ok h_one chan_one)) @
       [rcv_put ''c1'' late_pkt, ack_received_packet ''c1'', ack_handle_ack_info ''c1'' late_pkt]"
    by (simp add: rcv_channel_pkt_def ch j k ci called_def)
  with ch show ?thesis
    by (simp add: close_with_error_channels)
qed

lemma hdr_JustAck_iff:
  "hdr_JustAck h \<longleftrightarrow>
     Ack h \<noteq> None \<and> h = zero_hdr\<lparr> C := C h, Ack := Ack h, Miss := Miss h \<rparr>"
  by (cases h) (auto simp add: hdr_JustAck_def zero_hdr_def)

text \<open>
  Claim C8. \<open>JustAck\<close> holds exactly when the body is empty, \<open>ack\<close> is present and the
  header is the zero header but for \<open>c\<close>, \<open>ack\<close> and \<open>miss\<close>. On a packet satisfying
  \<open>JustAck\<close>, \<open>rcv_channel_pkt\<close> leaves the registry unchanged; when \<open>c\<close> is set and
  names a registered channel it makes exactly one call, \<open>handle_ack_info\<close> of that
  channel's ack engine with the packet, and otherwise it makes no call. Nothing is put
  into a receive buffer.
\<close>
theorem JustAck_only_ack_engine:
  "(JustAck p \<longleftrightarrow>
      body p = [] \<and> Ack (hdr p) \<noteq> None \<and>
      hdr p = zero_hdr\<lparr> C := C (hdr p), Ack := Ack (hdr p), Miss := Miss (hdr p) \<rparr>) \<and>
   (JustAck p \<longrightarrow>
      channels (rcv_channel_pkt h p) = channels h \<and>
      calls (rcv_channel_pkt h p) =
        (if C (hdr p) = [] then calls h
         else (case channels h (C (hdr p)) of
                 None \<Rightarrow> calls h
               | Some channel \<Rightarrow> calls h @ [ack_handle_ack_info (chan_id channel) p])) \<and>
      (\<forall>i q. rcv_put i q \<in> set (calls (rcv_channel_pkt h p)) \<longrightarrow> rcv_put i q \<in> set (calls h)))"
proof (intro conjI impI)
  show "JustAck p \<longleftrightarrow>
      body p = [] \<and> Ack (hdr p) \<noteq> None \<and>
      hdr p = zero_hdr\<lparr> C := C (hdr p), Ack := Ack (hdr p), Miss := Miss (hdr p) \<rparr>"
    by (simp add: JustAck_def hdr_JustAck_iff)
next
  assume j: "JustAck p"
  then have ty: "Type (hdr p) = []"
    by (simp add: JustAck_def hdr_JustAck_def split: if_splits)
  show "channels (rcv_channel_pkt h p) = channels h"
    using j ty by (simp add: rcv_channel_pkt_def called_def split: option.splits)
  show c: "calls (rcv_channel_pkt h p) =
        (if C (hdr p) = [] then calls h
         else (case channels h (C (hdr p)) of
                 None \<Rightarrow> calls h
               | Some channel \<Rightarrow> calls h @ [ack_handle_ack_info (chan_id channel) p]))"
    using j ty by (simp add: rcv_channel_pkt_def called_def split: option.splits)
  show "\<forall>i q. rcv_put i q \<in> set (calls (rcv_channel_pkt h p)) \<longrightarrow> rcv_put i q \<in> set (calls h)"
    unfolding c by (auto split: option.splits)
qed

theorem JustAck_only_ack_engine_witness:
  "JustAck ack_pkt \<and> C (hdr ack_pkt) = ''c1'' \<and> channels h_one ''c1'' = Some chan_one \<and>
   channels (rcv_channel_pkt h_one ack_pkt) = channels h_one \<and>
   calls (rcv_channel_pkt h_one ack_pkt) = [ack_handle_ack_info ''c1'' ack_pkt]"
proof -
  have j: "JustAck ack_pkt"
    by (simp add: JustAck_def hdr_JustAck_def ack_pkt_def zero_hdr_def)
  have k: "C (hdr ack_pkt) = ''c1''"
    by (simp add: ack_pkt_def)
  have r: "channels h_one ''c1'' = Some chan_one" and e: "calls h_one = []"
    by (simp_all add: h_one_def)
  have i: "chan_id chan_one = ''c1''"
    by (simp add: chan_one_def)
  from JustAck_only_ack_engine [of ack_pkt h_one] j
  have "channels (rcv_channel_pkt h_one ack_pkt) = channels h_one"
    and "calls (rcv_channel_pkt h_one ack_pkt) =
        (if C (hdr ack_pkt) = [] then calls h_one
         else (case channels h_one (C (hdr ack_pkt)) of
                 None \<Rightarrow> calls h_one
               | Some channel \<Rightarrow> calls h_one @ [ack_handle_ack_info (chan_id channel) ack_pkt]))"
    by blast+
  then show ?thesis
    using j by (simp add: k r e i)
qed

section \<open>Properties of the routing table\<close>

lemma highest_bit_1: "highest_bit (Suc 0) = 0"
  by (simp add: highest_bit.simps)



lemma bucketFromDistance_1: "bucketFromDistance 1 = 255"
  by (simp add: bucketFromDistance_def highest_bit_1)

lemma foldl_append_filter:
  "foldl (\<lambda>acc r. if P r then acc @ [r] else acc) acc xs = acc @ filter P xs"
  by (induction xs arbitrary: acc) simp_all

lemma add_router_eq:
  "add_router router rs = take maxRoutersPerCandidate (rs @ filter (\<lambda>r. r \<noteq> router) rs)"
  by (simp add: add_router_def foldl_append_filter Let_def)

text \<open>
  Claim C1, at the failing input. From the empty table of node 0, \<open>addCandidate\<close> of
  hashname 1 and then \<open>activatePeer\<close> of hashname 1 leave it both in \<open>peers\<close> and in
  \<open>candidates\<close> of bucket 255.
\<close>
theorem activatePeer_keeps_candidate:
  "map pi_hashname (candidates (buckets (addCandidate (init 0) 1 2) 255)) = [1] \<and>
   map pi_hashname (peers (buckets t_cand 255)) = [1] \<and>
   map pi_hashname (candidates (buckets t_cand 255)) = [1]"
  by (simp add: t_cand_def activatePeer_def addCandidate_def init_def distance_def
      bucketFromDistance_1 Let_def set_bucket_def maxCandidates_def maxPeers_def)

text \<open>
  Claim C3, at the failing input. The router loop of \<open>addCandidate\<close> appends to the list
  its own entries other than the router, never the router. For the candidate 1 known
  through router 2, \<open>addCandidate\<close> with router 3 leaves the routers \<open>[2, 2]\<close>, where the
  merge of the specification gives \<open>[2, 3]\<close>.
\<close>
theorem addCandidate_router_merge:
  "add_router router rs = take maxRoutersPerCandidate (rs @ filter (\<lambda>r. r \<noteq> router) rs) \<and>
   map routers (candidates (buckets (addCandidate (init 0) 1 2) 255)) = [[2]] \<and>
   map routers (candidates (buckets t_routers 255)) = [[2, 2]] \<and>
   merge_router_spec 3 [2] = [2, 3]"
proof (intro conjI)
  show "add_router router rs = take maxRoutersPerCandidate (rs @ filter (\<lambda>r. r \<noteq> router) rs)"
    by (rule add_router_eq)
  show "map routers (candidates (buckets (addCandidate (init 0) 1 2) 255)) = [[2]]"
    by (simp add: addCandidate_def init_def distance_def bucketFromDistance_1
        Let_def set_bucket_def maxCandidates_def)
  show "map routers (candidates (buckets t_routers 255)) = [[2, 2]]"
    by (simp add: t_routers_def addCandidate_def init_def distance_def bucketFromDistance_1
        Let_def set_bucket_def maxCandidates_def add_router_def maxRoutersPerCandidate_def)
  show "merge_router_spec 3 [2] = [2, 3]"
    by (simp add: merge_router_spec_def maxRoutersPerCandidate_def)
qed


subsection \<open>The lookup\<close>





























end
